theory Spec2Isabelle
  imports Main "HOL-Library.Word"
begin

unbundle bit_operations_syntax

text \<open>
  A model of the chat application's message pipeline: the conversation builder of the chat
  window, the non-streaming chat route, the streaming route of the streaming guide with its
  interruption handling, and the client's cancel handler. Each function takes the state it
  reads (tables, console, response stream, React state) and returns the state it leaves;
  what the platform and the provider answer is an argument.
\<close>

section \<open>Data model\<close>

text \<open>
  Message text (the content of a turn, a system prompt, a fragment of a completion) is a
  JavaScript string: a sequence of UTF-16 code units, surrogates paired or not.
  Concatenation is list append and the empty string is the empty list. Identifiers, time
  stamps, tokens and the fixed log and error messages are opaque names and are written as
  strings of the logic; \<open>js\<close> gives the JavaScript string of a literal of the source,
  character by character.
\<close>

type_synonym code_unit = "16 word"

type_synonym js_string = "code_unit list"

definition js :: "string \<Rightarrow> js_string" where
  "js s = map (\<lambda>c. of_nat (of_char c)) s"

text \<open>
  The database types of \<^verbatim>\<open>src/lib/supabaseClient.ts\<close>. A conversation turn is the
  object type \<^verbatim>\<open>{ role; content }\<close> that both routes and the provider functions
  declare for their \<^verbatim>\<open>messages\<close> argument. The object literal that the routes and the
  chat window insert into the \<^verbatim>\<open>messages\<close> table adds \<^verbatim>\<open>chat_id\<close> and
  \<^verbatim>\<open>created_at\<close>; a stored \<^verbatim>\<open>Message\<close> adds the \<^verbatim>\<open>id\<close> the database assigns.
\<close>

datatype role = User | Assistant | System

record turn =
  role :: role
  content :: js_string

record new_message = turn +
  chat_id :: string
  created_at :: string

record Message = new_message +
  message_id :: string

text \<open>
  \<^verbatim>\<open>Chat.system_prompt\<close> is declared \<^verbatim>\<open>string\<close>, the column is a nullable
  \<^verbatim>\<open>text\<close>: the field is read as a value that may be null.
\<close>

record Chat =
  chat_ident :: string
  user_id :: string
  title :: string
  chat_created_at :: string
  system_prompt :: "js_string option"

text \<open>
  JavaScript truthiness of a value of type \<^verbatim>\<open>string | null | undefined\<close>: null,
  undefined and the empty string are falsy, every other string is truthy.
\<close>

fun truthy :: "'a list option \<Rightarrow> bool" where
  "truthy None = False"
| "truthy (Some s) = (s \<noteq> [])"

text \<open>\<^verbatim>\<open>a || b\<close> on such a value and a string default.\<close>

fun or_else :: "'a list option \<Rightarrow> 'a list \<Rightarrow> 'a list" where
  "or_else None d = d"
| "or_else (Some s) d = (if s \<noteq> [] then s else d)"

section \<open>Conversation builder (ChatWindow.handleSendMessage)\<close>

text \<open>
  \<^verbatim>\<open>chat?.system_prompt\<close>: the state \<^verbatim>\<open>chat\<close> is \<^verbatim>\<open>Chat | null\<close>.
\<close>

fun chat_system_prompt :: "Chat option \<Rightarrow> js_string option" where
  "chat_system_prompt None = None"
| "chat_system_prompt (Some c) = system_prompt c"

text \<open>
  \<^verbatim>\<open>
  const allMessages = [
    ...(chat?.system_prompt ? [{ role: 'system', content: chat.system_prompt }] : []),
    ...messages,
    userMessage,
  ] as { role: 'user' | 'assistant' | 'system'; content: string }[];
  \<close>
  The spread builds a new array; the elements are read at the declared element type, which
  \<open>turn.truncate\<close> expresses for the stored messages and for the new user message.
\<close>

definition allMessages :: "Chat option \<Rightarrow> Message list \<Rightarrow> new_message \<Rightarrow> turn list" where
  "allMessages chat messages userMessage =
     (case chat_system_prompt chat of
        None \<Rightarrow> []
      | Some p \<Rightarrow> if truthy (Some p) then [\<lparr>role = System, content = p\<rparr>] else [])
     @ map turn.truncate messages
     @ [turn.truncate userMessage]"

section \<open>Server-side environment\<close>

text \<open>
  The Supabase tables the routes touch, the outcome of an insert, and the server console.
  An insert into \<^verbatim>\<open>messages\<close> resolves to \<^verbatim>\<open>{ error }\<close>: it does not throw, it
  reports failure in the returned object, as the non-streaming route reads it. Rows are kept
  in insertion order; the \<^verbatim>\<open>id\<close> the database assigns is not part of the model.
\<close>

datatype db_error = DbError

record world =
  chats_table :: "Chat list"
  messages_table :: "new_message list"
  insert_fails :: bool
  console :: "string list"

definition insert_messages :: "new_message list \<Rightarrow> world \<Rightarrow> db_error option \<times> world" where
  "insert_messages xs w =
     (if insert_fails w then (Some DbError, w)
      else (None, w\<lparr>messages_table := messages_table w @ xs\<rparr>))"

definition console_error :: "string \<Rightarrow> world \<Rightarrow> world" where
  "console_error msg w = w\<lparr>console := console w @ [msg]\<rparr>"

text \<open>
  \<^verbatim>\<open>from('chats').select('*').eq('id', chatId).eq('user_id', uid).single()\<close>:
  \<^verbatim>\<open>single\<close> yields the row when exactly one matches and an error otherwise; the
  routes treat \<^verbatim>\<open>chatError || !chatData\<close> alike, here \<open>None\<close>.
\<close>

definition select_chat :: "string \<Rightarrow> string \<Rightarrow> world \<Rightarrow> Chat option" where
  "select_chat cid uid w =
     (case filter (\<lambda>c. chat_ident c = cid \<and> user_id c = uid) (chats_table w) of
        [c] \<Rightarrow> Some c
      | _ \<Rightarrow> None)"

text \<open>
  What a request carries and what the platform answers: the parsed JSON body (\<open>None\<close> when
  \<^verbatim>\<open>request.json()\<close> throws), the \<^verbatim>\<open>sb-access-token\<close> cookie, the user id that
  \<^verbatim>\<open>auth.getUser()\<close> yields (\<open>None\<close> for \<^verbatim>\<open>userError || !userData.user\<close>) and the
  value of \<^verbatim>\<open>new Date().toISOString()\<close>.
\<close>

record request_body =
  messages :: "turn list"
  chatId :: string

record env =
  sb_access_token :: "string option"
  getUser :: "string option"
  now :: string

text \<open>
  An error thrown by the provider client: the HTTP status, absent for a transport failure,
  and the message, the two fields the documentation's handlers inspect
  (\<^verbatim>\<open>error.status === 429\<close>,
  \<^verbatim>\<open>error.status === 400 && error.message.includes('maximum context length')\<close>).
\<close>

datatype upstream_error = APIError (error_status: "nat option") (error_message: string)

text \<open>
  What a \<^verbatim>\<open>catch\<close> block of the streaming route can receive: an error of the provider,
  or the \<^verbatim>\<open>TypeError\<close> that the stream controller throws.
\<close>

datatype thrown = Upstream upstream_error | TypeError

section \<open>The response stream\<close>

text \<open>
  \<^verbatim>\<open>TextEncoder.encode\<close>. The string is first read as a sequence of Unicode scalar
  values: a high surrogate followed by a low surrogate is one supplementary code point, any
  other surrogate is replaced by U+FFFD. Each scalar value is then written in UTF-8, in one
  to four bytes.
\<close>

type_synonym byte = "8 word"

definition is_high :: "code_unit \<Rightarrow> bool" where
  "is_high u = (0xD800 \<le> unat u \<and> unat u \<le> 0xDBFF)"

definition is_low :: "code_unit \<Rightarrow> bool" where
  "is_low u = (0xDC00 \<le> unat u \<and> unat u \<le> 0xDFFF)"

fun scalar_values :: "js_string \<Rightarrow> nat list" where
  "scalar_values [] = []"
| "scalar_values [u] = (if is_high u \<or> is_low u then [0xFFFD] else [unat u])"
| "scalar_values (u # v # rest) =
     (if is_high u \<and> is_low v
      then (0x10000 + (unat u - 0xD800) * 0x400 + (unat v - 0xDC00)) # scalar_values rest
      else if is_high u \<or> is_low u then 0xFFFD # scalar_values (v # rest)
      else unat u # scalar_values (v # rest))"

definition utf8 :: "nat \<Rightarrow> byte list" where
  "utf8 n =
     (if n < 0x80 then [of_nat n]
      else if n < 0x800 then [of_nat (0xC0 + n div 0x40), of_nat (0x80 + n mod 0x40)]
      else if n < 0x10000
      then [of_nat (0xE0 + n div 0x1000), of_nat (0x80 + n div 0x40 mod 0x40),
            of_nat (0x80 + n mod 0x40)]
      else [of_nat (0xF0 + n div 0x40000), of_nat (0x80 + n div 0x1000 mod 0x40),
            of_nat (0x80 + n div 0x40 mod 0x40), of_nat (0x80 + n mod 0x40)])"

definition encode :: "js_string \<Rightarrow> byte list" where
  "encode s = concat (map utf8 (scalar_values s))"

text \<open>
  The \<^verbatim>\<open>ReadableStreamDefaultController\<close> handed to \<^verbatim>\<open>start\<close>, as far as the route
  can tell: the state of the stream, and \<open>enqueued\<close>, the chunks that \<^verbatim>\<open>enqueue\<close> has
  accepted so far, in the order of the calls. \<open>enqueued\<close> is a record of the calls, not the
  controller's internal queue: which of these chunks the reader has already taken is the
  reader's business, and a chunk not yet taken when the stream is errored or cancelled is
  discarded by the platform.

  The operations follow the Streams standard. \<^verbatim>\<open>enqueue\<close> and \<^verbatim>\<open>close\<close> throw a
  \<^verbatim>\<open>TypeError\<close> unless the stream is readable; \<^verbatim>\<open>error\<close> does nothing unless the
  stream is readable. When the client goes away the platform cancels the stream, which
  closes it; the route gives its stream no \<^verbatim>\<open>cancel\<close> callback and is not told.
\<close>

datatype stream_state = Readable | Closed | Errored thrown

record controller =
  enqueued :: "byte list list"
  stream_state :: stream_state

definition new_controller :: controller where
  "new_controller = \<lparr>enqueued = [], stream_state = Readable\<rparr>"

definition controller_enqueue :: "byte list \<Rightarrow> controller \<Rightarrow> thrown + controller" where
  "controller_enqueue b ctl =
     (if stream_state ctl = Readable then Inr (ctl\<lparr>enqueued := enqueued ctl @ [b]\<rparr>)
      else Inl TypeError)"

definition controller_close :: "controller \<Rightarrow> thrown + controller" where
  "controller_close ctl =
     (if stream_state ctl = Readable then Inr (ctl\<lparr>stream_state := Closed\<rparr>)
      else Inl TypeError)"

definition controller_error :: "thrown \<Rightarrow> controller \<Rightarrow> controller" where
  "controller_error e ctl =
     (if stream_state ctl = Readable then ctl\<lparr>stream_state := Errored e\<rparr> else ctl)"

definition stream_cancel :: "controller \<Rightarrow> controller" where
  "stream_cancel ctl =
     (if stream_state ctl = Readable then ctl\<lparr>stream_state := Closed\<rparr> else ctl)"

datatype body = Json_error string | Json_success bool | Stream controller

record response =
  status :: nat
  body :: body

section \<open>Non-streaming route (src/app/api/chat/route.ts)\<close>

text \<open>
  \<^verbatim>\<open>generateChatCompletion(messages)\<close> either throws the provider's error or returns
  \<^verbatim>\<open>completion.choices[0].message.content\<close>, a string or null; it is a parameter of
  the route. It logs before it rethrows, and the route's \<^verbatim>\<open>catch\<close> logs again.
\<close>

definition POST ::
  "(turn list \<Rightarrow> upstream_error + js_string option) \<Rightarrow> env \<Rightarrow> request_body option \<Rightarrow> world
     \<Rightarrow> response \<times> world" where
  "POST generateChatCompletion e request w =
     (case request of
        None \<Rightarrow>
          (\<lparr>status = 500, body = Json_error ''Internal server error''\<rparr>,
           console_error ''Error in chat API route:'' w)
      | Some rq \<Rightarrow>
          if \<not> truthy (sb_access_token e)
          then (\<lparr>status = 401, body = Json_error ''Unauthorized''\<rparr>, w)
          else (case getUser e of
            None \<Rightarrow> (\<lparr>status = 401, body = Json_error ''Unauthorized''\<rparr>, w)
          | Some uid \<Rightarrow>
             (case select_chat (chatId rq) uid w of
                None \<Rightarrow>
                  (\<lparr>status = 403, body = Json_error ''Chat not found or access denied''\<rparr>, w)
              | Some chatData \<Rightarrow>
                 (case generateChatCompletion (messages rq) of
                    Inl err \<Rightarrow>
                      (\<lparr>status = 500, body = Json_error ''Internal server error''\<rparr>,
                       console_error ''Error in chat API route:''
                         (console_error ''Error generating chat completion:'' w))
                  | Inr aiResponse \<Rightarrow>
                     (case insert_messages
                        [\<lparr>role = Assistant,
                          content = or_else aiResponse
                            (js ''I apologize, but I was unable to generate a response.''),
                          chat_id = chatId rq,
                          created_at = now e\<rparr>] w of
                        (Some insertError, w') \<Rightarrow>
                          (\<lparr>status = 500, body = Json_error ''Failed to save AI response''\<rparr>,
                           console_error ''Error inserting AI response:'' w')
                      | (None, w') \<Rightarrow>
                          (\<lparr>status = 200, body = Json_success True\<rparr>, w'))))))"

section \<open>Streaming route (docs/customization/message-streaming.md)\<close>

text \<open>
  A chunk of the provider's stream, as far as the route reads it:
  \<^verbatim>\<open>chunk.choices[0]?.delta?.content || ''\<close>. The list of choices may be empty, the
  delta and its content may be absent or null.
\<close>

datatype delta = Delta (delta_content: "js_string option")

datatype choice = Choice (choice_delta: "delta option")

datatype chunk = Chunk (choices: "choice list")

definition chunk_content :: "chunk \<Rightarrow> js_string" where
  "chunk_content c =
     (case choices c of
        [] \<Rightarrow> []
      | ch # _ \<Rightarrow>
         (case choice_delta ch of
            None \<Rightarrow> []
          | Some d \<Rightarrow> or_else (delta_content d) []))"

text \<open>
  The stream returned by \<^verbatim>\<open>generateStreamingChatCompletion\<close> is consumed once by
  \<^verbatim>\<open>for await\<close>: it yields its chunks in order and then either ends or throws.
\<close>

record openai_stream =
  chunks :: "chunk list"
  fault :: "upstream_error option"

text \<open>
  One iteration of the loop body, with the error that \<^verbatim>\<open>enqueue\<close> may throw; the
  response has been extended when it does.
  \<^verbatim>\<open>
  const content = chunk.choices[0]?.delta?.content || '';
  if (content) {
    fullResponse += content;
    controller.enqueue(encoder.encode(content));
  }
  \<close>
\<close>

definition relay_step ::
  "chunk \<Rightarrow> js_string \<times> controller \<Rightarrow> thrown option \<times> js_string \<times> controller" where
  "relay_step c s =
     (case s of (fullResponse, ctl) \<Rightarrow>
        let content' = chunk_content c
        in if content' \<noteq> []
           then (case controller_enqueue (encode content') ctl of
                   Inl e \<Rightarrow> (Some e, fullResponse @ content', ctl)
                 | Inr ctl' \<Rightarrow> (None, fullResponse @ content', ctl'))
           else (None, fullResponse, ctl))"

text \<open>The loop over the chunks; it ends at the first iteration that throws.\<close>

fun relay_loop ::
  "chunk list \<Rightarrow> js_string \<times> controller \<Rightarrow> thrown option \<times> js_string \<times> controller" where
  "relay_loop [] s = (None, s)"
| "relay_loop (c # cs) s =
     (case relay_step c s of
        (Some e, s') \<Rightarrow> (Some e, s')
      | (None, s') \<Rightarrow> relay_loop cs s')"

text \<open>
  The loop in a session in which the client may go away: \<open>client_abort\<close> is \<open>None\<close> when the
  client stays connected, and \<open>Some n\<close> when the platform cancels the response stream once
  the loop has taken \<open>n\<close> chunks (after the last chunk when \<open>n\<close> is the number of chunks or
  more). The loop itself goes on: nothing in it looks at the request's signal.
\<close>

definition for_await ::
  "nat option \<Rightarrow> chunk list \<Rightarrow> js_string \<times> controller
     \<Rightarrow> thrown option \<times> js_string \<times> controller" where
  "for_await client_abort cs s =
     (case client_abort of
        None \<Rightarrow> relay_loop cs s
      | Some n \<Rightarrow>
         (case relay_loop (take n cs) s of
            (Some e, s') \<Rightarrow> (Some e, s')
          | (None, fullResponse, ctl) \<Rightarrow>
              relay_loop (drop n cs) (fullResponse, stream_cancel ctl)))"

text \<open>
  The \<^verbatim>\<open>catch\<close> block of the route as first given (Step 2 of the guide):
  \<^verbatim>\<open>
  console.error('Error processing stream:', error);
  controller.error(error);
  \<close>
\<close>

definition catch_processing :: "thrown \<Rightarrow> js_string \<Rightarrow> controller \<Rightarrow> world \<Rightarrow> controller \<times> world" where
  "catch_processing err fullResponse ctl w =
     (controller_error err ctl, console_error ''Error processing stream:'' w)"

text \<open>
  The \<^verbatim>\<open>catch\<close> block of the guide's section ``Handling Stream Interruptions'':
  \<^verbatim>\<open>
  console.error('Stream interrupted:', error);
  if (fullResponse) {
    await supabaseClient.from('messages').insert([{ ...,
      content: fullResponse + ' [Response interrupted]', ... }]);
  }
  controller.error(error);
  \<close>
\<close>

definition catch_interrupted ::
  "string \<Rightarrow> string \<Rightarrow> thrown \<Rightarrow> js_string \<Rightarrow> controller \<Rightarrow> world \<Rightarrow> controller \<times> world" where
  "catch_interrupted cid now_iso err fullResponse ctl w =
     (let w1 = console_error ''Stream interrupted:'' w
      in if fullResponse \<noteq> []
         then (case insert_messages
                 [\<lparr>role = Assistant,
                   content = fullResponse @ js '' [Response interrupted]'',
                   chat_id = cid, created_at = now_iso\<rparr>] w1 of
                 (_, w') \<Rightarrow> (controller_error err ctl, w'))
         else (controller_error err ctl, w1))"

text \<open>
  \<^verbatim>\<open>start(controller)\<close> with its \<^verbatim>\<open>try\<close> block: the loop; then, when the provider's
  stream has ended without throwing, the insert of the full response, whose result is not
  read, and \<^verbatim>\<open>controller.close()\<close>. Whatever is thrown in the block goes to the
  \<^verbatim>\<open>catch\<close> block, together with the response accumulated so far.
\<close>

definition start_with ::
  "(thrown \<Rightarrow> js_string \<Rightarrow> controller \<Rightarrow> world \<Rightarrow> controller \<times> world)
     \<Rightarrow> nat option \<Rightarrow> string \<Rightarrow> string \<Rightarrow> openai_stream \<Rightarrow> controller \<Rightarrow> world
     \<Rightarrow> controller \<times> world" where
  "start_with catch client_abort cid now_iso openaiStream controller w =
     (case for_await client_abort (chunks openaiStream) ([], controller) of
        (Some e, fullResponse, ctl) \<Rightarrow> catch e fullResponse ctl w
      | (None, fullResponse, ctl) \<Rightarrow>
         (case fault openaiStream of
            Some err \<Rightarrow> catch (Upstream err) fullResponse ctl w
          | None \<Rightarrow>
             (case insert_messages
                [\<lparr>role = Assistant, content = fullResponse,
                  chat_id = cid, created_at = now_iso\<rparr>] w of
                (_, w') \<Rightarrow>
                  (case controller_close ctl of
                     Inr ctl' \<Rightarrow> (ctl', w')
                   | Inl e \<Rightarrow> catch e fullResponse ctl w'))))"

text \<open>The route as first given, and the route with the interruption handler as its catch block.\<close>

definition start ::
  "nat option \<Rightarrow> string \<Rightarrow> string \<Rightarrow> openai_stream \<Rightarrow> controller \<Rightarrow> world \<Rightarrow> controller \<times> world" where
  "start client_abort cid now_iso openaiStream controller w =
     start_with catch_processing client_abort cid now_iso openaiStream controller w"

definition start_handling_interruptions ::
  "nat option \<Rightarrow> string \<Rightarrow> string \<Rightarrow> openai_stream \<Rightarrow> controller \<Rightarrow> world \<Rightarrow> controller \<times> world" where
  "start_handling_interruptions client_abort cid now_iso openaiStream controller w =
     start_with (catch_interrupted cid now_iso) client_abort cid now_iso openaiStream controller w"

text \<open>
  The streaming \<^verbatim>\<open>POST\<close>. \<^verbatim>\<open>generateStreamingChatCompletion(messages)\<close> throws
  the provider's error (after logging it) or returns the stream; an error thrown there is
  caught by the route's outer \<^verbatim>\<open>catch\<close>. The body of a streaming response is given in
  the state the controller has once \<^verbatim>\<open>start\<close> has run.
\<close>

definition POST_stream ::
  "(turn list \<Rightarrow> upstream_error + openai_stream) \<Rightarrow> nat option \<Rightarrow> env \<Rightarrow> request_body option
     \<Rightarrow> world \<Rightarrow> response \<times> world" where
  "POST_stream generateStreamingChatCompletion client_abort e request w =
     (case request of
        None \<Rightarrow>
          (\<lparr>status = 500, body = Json_error ''Internal server error''\<rparr>,
           console_error ''Error in streaming API route:'' w)
      | Some rq \<Rightarrow>
          if \<not> truthy (sb_access_token e)
          then (\<lparr>status = 401, body = Json_error ''Unauthorized''\<rparr>, w)
          else (case getUser e of
            None \<Rightarrow> (\<lparr>status = 401, body = Json_error ''Unauthorized''\<rparr>, w)
          | Some uid \<Rightarrow>
             (case select_chat (chatId rq) uid w of
                None \<Rightarrow>
                  (\<lparr>status = 403, body = Json_error ''Chat not found or access denied''\<rparr>, w)
              | Some chatData \<Rightarrow>
                 (case generateStreamingChatCompletion (messages rq) of
                    Inl err \<Rightarrow>
                      (\<lparr>status = 500, body = Json_error ''Internal server error''\<rparr>,
                       console_error ''Error in streaming API route:''
                         (console_error ''Error generating streaming chat completion:'' w))
                  | Inr openaiStream \<Rightarrow>
                     (case start client_abort (chatId rq) (now e) openaiStream new_controller w of
                        (ctl, w') \<Rightarrow> (\<lparr>status = 200, body = Stream ctl\<rparr>, w'))))))"

section \<open>Client side of a streaming session (ChatWindow, streaming guide)\<close>

text \<open>
  The React state the streaming code uses: the in-progress message, the abort controller
  kept in state (\<^verbatim>\<open>AbortController | null\<close>), and whether \<^verbatim>\<open>abort()\<close> was called
  on the signal given to \<^verbatim>\<open>fetch\<close>.
\<close>

record client =
  streamingMessage :: "Message option"
  abortController :: "unit option"
  aborted :: bool

text \<open>
  \<^verbatim>\<open>handleSendMessage\<close> creates the temporary message with empty content and stores a
  fresh abort controller before it calls \<^verbatim>\<open>fetch\<close>.
\<close>

definition begin_streaming :: "string \<Rightarrow> string \<Rightarrow> string \<Rightarrow> client" where
  "begin_streaming cid stamp now_iso =
     \<lparr>streamingMessage =
        Some \<lparr>role = Assistant, content = [], chat_id = cid, created_at = now_iso,
              message_id = ''streaming-'' @ stamp\<rparr>,
      abortController = Some (),
      aborted = False\<rparr>"

text \<open>
  The body of the read loop,
  \<^verbatim>\<open>setStreamingMessage(prev => ({ ...prev!, content: prev!.content + chunk }))\<close>,
  on the text that \<^verbatim>\<open>decoder.decode(value)\<close> gives for one read;
  with \<^verbatim>\<open>prev\<close> null the updater throws, here \<open>None\<close>.
\<close>

definition receive_chunk :: "js_string \<Rightarrow> client \<Rightarrow> client option" where
  "receive_chunk chunk' c =
     (case streamingMessage c of
        None \<Rightarrow> None
      | Some prev \<Rightarrow>
          Some (c\<lparr>streamingMessage := Some (prev\<lparr>content := content prev @ chunk'\<rparr>)\<rparr>))"

fun read_loop :: "js_string list \<Rightarrow> client \<Rightarrow> client option" where
  "read_loop [] c = Some c"
| "read_loop (chunk' # rest) c =
     (case receive_chunk chunk' c of
        None \<Rightarrow> None
      | Some c' \<Rightarrow> read_loop rest c')"

text \<open>
  \<^verbatim>\<open>handleCancelResponse\<close>. The handler reads \<^verbatim>\<open>streamingMessage\<close> as it was when the
  handler was created: the state update that appends the marker to the displayed message
  does not change the content that is inserted, so the marker is inserted once. The insert's
  result is not read; \<^verbatim>\<open>then\<close> clears the in-progress message.
\<close>

definition handleCancelResponse :: "string \<Rightarrow> string \<Rightarrow> client \<Rightarrow> world \<Rightarrow> client \<times> world" where
  "handleCancelResponse cid now_iso c w =
     (case abortController c of
        None \<Rightarrow> (c, w)
      | Some _ \<Rightarrow>
          (let c1 = c\<lparr>aborted := True,
                      abortController := None,
                      streamingMessage :=
                        map_option
                          (\<lambda>prev. prev\<lparr>content := content prev @ js '' [Response cancelled]''\<rparr>)
                          (streamingMessage c)\<rparr>
           in case streamingMessage c of
                None \<Rightarrow> (c1, w)
              | Some m \<Rightarrow>
                  if content m \<noteq> []
                  then (case insert_messages
                          [\<lparr>role = Assistant,
                            content = content m @ js '' [Response cancelled]'',
                            chat_id = cid, created_at = now_iso\<rparr>] w of
                          (_, w') \<Rightarrow> (c1\<lparr>streamingMessage := None\<rparr>, w'))
                  else (c1, w)))"

section \<open>Auxiliary facts about the encoder, the loops and the routes\<close>

text \<open>
  The encoder sends nothing only for the empty string, and at least one byte for every code
  unit. Text of ASCII characters is sent as those characters, one byte each.
\<close>

lemma utf8_nonempty: "utf8 n \<noteq> []"
  by (simp add: utf8_def)

lemma scalar_values_Nil_iff: "scalar_values s = [] \<longleftrightarrow> s = []"
  by (induction s rule: scalar_values.induct) simp_all

lemma encode_Nil: "encode [] = []"
  by (simp add: encode_def)

lemma encode_Nil_iff: "encode s = [] \<longleftrightarrow> s = []"
proof
  assume "encode s = []"
  then have "scalar_values s = []"
    by (cases "scalar_values s") (simp_all add: encode_def utf8_nonempty)
  then show "s = []" by (simp add: scalar_values_Nil_iff)
next
  assume "s = []"
  then show "encode s = []" by (simp add: encode_def)
qed

lemma scalar_values_ascii:
  "\<forall>u \<in> set s. unat u < 0x80 \<Longrightarrow> scalar_values s = map unat s"
  by (induction s rule: scalar_values.induct) (auto simp: is_high_def is_low_def)

lemma encode_ascii:
  assumes "\<forall>u \<in> set s. unat u < 0x80"
  shows "encode s = map (\<lambda>u. of_nat (unat u)) s"
proof -
  have "concat (map utf8 (map unat s)) = map (\<lambda>u. of_nat (unat u)) s"
    using assms by (induction s) (simp_all add: utf8_def)
  then show ?thesis using assms by (simp add: encode_def scalar_values_ascii)
qed

text \<open>
  Encoding two strings one after the other is encoding their concatenation, unless the
  first ends in a high surrogate: a surrogate pair cut in two by a fragment boundary is sent
  as two replacement characters.
\<close>

lemma scalar_values_append:
  "a = [] \<or> \<not> is_high (last a) \<Longrightarrow> scalar_values (a @ b) = scalar_values a @ scalar_values b"
proof (induction a rule: scalar_values.induct)
  case 1
  show ?case by simp
next
  case (2 u)
  then have nh: "\<not> is_high u" by simp
  show ?case
  proof (cases b)
    case Nil
    then show ?thesis by simp
  next
    case (Cons v r)
    then show ?thesis using nh by simp
  qed
next
  case (3 u v rest)
  from "3.prems" have tail: "v # rest = [] \<or> \<not> is_high (last (v # rest))" by simp
  have tail': "rest = [] \<or> \<not> is_high (last rest)"
    using "3.prems" by (cases rest) simp_all
  show ?case
  proof (cases "is_high u")
    case hu: True
    show ?thesis
    proof (cases "is_low v")
      case True
      then show ?thesis using hu "3.IH"(1) tail' by simp
    next
      case False
      then show ?thesis using hu "3.IH"(2) tail by simp
    qed
  next
    case nhu: False
    show ?thesis
    proof (cases "is_low u")
      case True
      then show ?thesis using nhu "3.IH"(2) tail by simp
    next
      case False
      then show ?thesis using nhu "3.IH"(3) tail by simp
    qed
  qed
qed

lemma encode_append:
  "a = [] \<or> \<not> is_high (last a) \<Longrightarrow> encode (a @ b) = encode a @ encode b"
  by (simp add: encode_def scalar_values_append)

lemma encode_concat:
  "\<forall>f \<in> set fs. f = [] \<or> \<not> is_high (last f) \<Longrightarrow> encode (concat fs) = concat (map encode fs)"
  by (induction fs) (simp_all add: encode_Nil encode_append)

lemma encode_split_surrogate_pair:
  "encode [0xD83D, 0xDE00] = [0xF0, 0x9F, 0x98, 0x80]
   \<and> encode [0xD83D] @ encode [0xDE00] = [0xEF, 0xBF, 0xBD, 0xEF, 0xBF, 0xBD]"
  by (simp add: encode_def utf8_def is_high_def is_low_def)

text \<open>Chunks without text add nothing to the accumulated response.\<close>

lemma concat_filter_nonempty: "concat (filter (\<lambda>t. t \<noteq> []) xs) = concat xs"
  by (induction xs) simp_all

text \<open>
  The loop on a readable stream, in closed form: nothing throws, the accumulator grows by
  every chunk's text, and \<^verbatim>\<open>enqueue\<close> accepts the encoding of every non-empty text, in
  the order of the chunks.
\<close>

lemma relay_loop_readable:
  "stream_state ctl = Readable \<Longrightarrow>
   relay_loop cs (acc, ctl) =
     (None, acc @ concat (map chunk_content cs),
      ctl\<lparr>enqueued := enqueued ctl @ map encode (filter (\<lambda>t. t \<noteq> []) (map chunk_content cs))\<rparr>)"
proof (induction cs arbitrary: acc ctl)
  case Nil
  show ?case by simp
next
  case (Cons c cs)
  show ?case
  proof (cases "chunk_content c = []")
    case True
    then have "relay_step c (acc, ctl) = (None, acc, ctl)"
      by (simp add: relay_step_def)
    then show ?thesis using Cons.IH [of ctl acc] Cons.prems True by simp
  next
    case False
    let ?ctl = "ctl\<lparr>enqueued := enqueued ctl @ [encode (chunk_content c)]\<rparr>"
    have "relay_step c (acc, ctl) = (None, acc @ chunk_content c, ?ctl)"
      using False Cons.prems by (simp add: relay_step_def Let_def controller_enqueue_def)
    moreover have "stream_state ?ctl = Readable"
      using Cons.prems by simp
    ultimately show ?thesis
      using Cons.IH [of ?ctl "acc @ chunk_content c"] False by simp
  qed
qed

text \<open>Chunks without text never reach the controller, whatever its state.\<close>

lemma relay_loop_no_text:
  "concat (map chunk_content cs) = [] \<Longrightarrow> relay_loop cs (acc, ctl) = (None, acc, ctl)"
  by (induction cs) (simp_all add: relay_step_def)

lemma for_await_no_text:
  "concat (map chunk_content cs) = [] \<Longrightarrow>
   fst (for_await client_abort cs (acc, ctl)) = None
   \<and> fst (snd (for_await client_abort cs (acc, ctl))) = acc"
proof -
  assume a: "concat (map chunk_content cs) = []"
  have t: "concat (map chunk_content (take n cs)) = []" for n
    using a by (induction cs arbitrary: n) (auto simp: take_Cons split: nat.splits)
  have d: "concat (map chunk_content (drop n cs)) = []" for n
    using a by (induction cs arbitrary: n) (auto simp: drop_Cons split: nat.splits)
  show ?thesis
    using a by (cases client_abort) (simp_all add: for_await_def relay_loop_no_text t d)
qed

text \<open>The loop handles a further chunk after, and on the state left by, all the earlier ones.\<close>

lemma relay_loop_snoc:
  "relay_loop (cs @ [c]) s =
     (case relay_loop cs s of
        (Some e, s') \<Rightarrow> (Some e, s')
      | (None, s') \<Rightarrow> relay_step c s')"
proof (induction cs arbitrary: s)
  case Nil
  show ?case by (cases "relay_step c s") (auto split: option.splits)
next
  case (Cons x xs)
  show ?case
    by (cases "relay_step x s") (auto simp: Cons.IH split: option.splits)
qed

text \<open>
  Whether the client stays or goes, one run of the route with the interruption handler
  adds at most two rows: one in the \<^verbatim>\<open>try\<close> block, one in the \<^verbatim>\<open>catch\<close> block.
\<close>

lemma start_handling_interruptions_rows:
  "\<exists>rs. messages_table (snd (start_handling_interruptions client_abort cid t os ctl w))
          = messages_table w @ rs \<and> length rs \<le> 2"
proof -
  have c: "\<exists>rs. messages_table (snd (catch_interrupted cid t e acc k v)) = messages_table v @ rs
             \<and> length rs \<le> 1" for e acc k v
    by (simp add: catch_interrupted_def insert_messages_def console_error_def Let_def)
  obtain r acc k where fa: "for_await client_abort (chunks os) ([], ctl) = (r, acc, k)"
    by (cases "for_await client_abort (chunks os) ([], ctl)") auto
  show ?thesis
  proof (cases r)
    case (Some e)
    then show ?thesis
      using c [of e acc k w] fa
      by (auto simp: start_handling_interruptions_def start_with_def)
  next
    case None
    show ?thesis
    proof (cases "fault os")
      case (Some err)
      then show ?thesis
        using c [of "Upstream err" acc k w] fa None
        by (auto simp: start_handling_interruptions_def start_with_def)
    next
      case nofault: None
      obtain r' w' where ins: "insert_messages
          [\<lparr>role = Assistant, content = acc, chat_id = cid, created_at = t\<rparr>] w = (r', w')"
        by (cases "insert_messages
          [\<lparr>role = Assistant, content = acc, chat_id = cid, created_at = t\<rparr>] w") auto
      then obtain r1 where w': "messages_table w' = messages_table w @ r1" "length r1 \<le> 1"
        by (auto simp: insert_messages_def split: if_splits)
      show ?thesis
      proof (cases "controller_close k")
        case (Inr k')
        then show ?thesis
          using fa None nofault ins w'
          by (auto simp: start_handling_interruptions_def start_with_def)
      next
        case (Inl e)
        obtain r2 where "messages_table (snd (catch_interrupted cid t e acc k w'))
            = messages_table w' @ r2" "length r2 \<le> 1"
          using c [of e acc k w'] by auto
        then have "messages_table (snd (catch_interrupted cid t e acc k w'))
            = messages_table w @ (r1 @ r2) \<and> length (r1 @ r2) \<le> 2"
          using w' by simp
        then show ?thesis
          using fa None nofault ins Inl
          by (auto simp: start_handling_interruptions_def start_with_def)
      qed
    qed
  qed
qed

text \<open>
  The client's read loop in closed form: as long as an in-progress message exists, its
  content grows by every chunk read, in order.
\<close>

lemma read_loop_eq:
  "streamingMessage c = Some m \<Longrightarrow>
     read_loop cs c = Some (c\<lparr>streamingMessage := Some (m\<lparr>content := content m @ concat cs\<rparr>)\<rparr>)"
proof (induction cs arbitrary: c m)
  case Nil
  then show ?case by simp
next
  case (Cons x xs)
  have step: "receive_chunk x c = Some (c\<lparr>streamingMessage := Some (m\<lparr>content := content m @ x\<rparr>)\<rparr>)"
    using Cons.prems by (simp add: receive_chunk_def)
  have "read_loop xs (c\<lparr>streamingMessage := Some (m\<lparr>content := content m @ x\<rparr>)\<rparr>)
        = Some (c\<lparr>streamingMessage := Some (m\<lparr>content := content m @ x @ concat xs\<rparr>)\<rparr>)"
    using Cons.IH [of "c\<lparr>streamingMessage := Some (m\<lparr>content := content m @ x\<rparr>)\<rparr>" "m\<lparr>content := content m @ x\<rparr>"]
    by simp
  then show ?case using step by simp
qed

text \<open>
  The non-streaming route reads the result of its insert: a failed insert is logged under
  its own message and answered with its own error body.
\<close>

lemma POST_insert_failure_reported:
  assumes "truthy (sb_access_token e)" and "getUser e = Some uid"
    and "select_chat (chatId rq) uid w = Some ch"
    and "generateChatCompletion (messages rq) = Inr aiResponse"
    and "insert_fails w"
  shows "POST generateChatCompletion e (Some rq) w =
           (\<lparr>status = 500, body = Json_error ''Failed to save AI response''\<rparr>,
            console_error ''Error inserting AI response:'' w)"
  using assms by (simp add: POST_def insert_messages_def)

section \<open>Conversation builder\<close>

text \<open>
  Claim C6. For every chat state (absent, or with a null, empty or non-empty system prompt),
  every history \<open>H\<close> and every new user message \<open>T\<close>, the array sent to the route is the
  optional system turn, then \<open>H\<close> in its order, then \<open>T\<close> last. The system turn is present
  exactly when the stored prompt is a non-empty string. The function is total: it has no
  error case, and it builds a new list from its arguments.
\<close>

theorem C6_conversation_builder:
  "(\<forall>p. chat_system_prompt chat = Some p \<and> p \<noteq> [] \<longrightarrow>
       allMessages chat H T =
         \<lparr>role = System, content = p\<rparr> # map turn.truncate H @ [turn.truncate T])
   \<and> (chat_system_prompt chat = None \<or> chat_system_prompt chat = Some [] \<longrightarrow>
       allMessages chat H T = map turn.truncate H @ [turn.truncate T])
   \<and> last (allMessages chat H T) = \<lparr>role = role T, content = content T\<rparr>
   \<and> map content (butlast (drop (length (allMessages chat H T) - Suc (length H)) (allMessages chat H T))) = map content H
   \<and> map role (butlast (drop (length (allMessages chat H T) - Suc (length H)) (allMessages chat H T))) = map role H"
  by (auto simp: allMessages_def turn.truncate_def butlast_append comp_def split: option.splits)

text \<open>The builder on a chat with a prompt and two stored messages, and on no chat at all.\<close>

theorem C6_conversation_builder_witness:
  "chat_system_prompt
      (Some \<lparr>chat_ident = ''c1'', user_id = ''u1'', title = ''New Chat'',
             chat_created_at = ''2024-01-01T00:00:00.000Z'',
             system_prompt = Some (js ''You are a helpful assistant.'')\<rparr>)
     = Some (js ''You are a helpful assistant.'')
   \<and> js ''You are a helpful assistant.'' \<noteq> []
   \<and> allMessages
        (Some \<lparr>chat_ident = ''c1'', user_id = ''u1'', title = ''New Chat'',
               chat_created_at = ''2024-01-01T00:00:00.000Z'',
               system_prompt = Some (js ''You are a helpful assistant.'')\<rparr>)
        [\<lparr>role = User, content = js ''Hi'', chat_id = ''c1'',
          created_at = ''2024-01-01T00:00:01.000Z'', message_id = ''m1''\<rparr>,
         \<lparr>role = Assistant, content = js ''Hello!'', chat_id = ''c1'',
          created_at = ''2024-01-01T00:00:02.000Z'', message_id = ''m2''\<rparr>]
        \<lparr>role = User, content = js ''Bye'', chat_id = ''c1'',
          created_at = ''2024-01-01T00:00:03.000Z''\<rparr>
      = [\<lparr>role = System, content = js ''You are a helpful assistant.''\<rparr>,
         \<lparr>role = User, content = js ''Hi''\<rparr>,
         \<lparr>role = Assistant, content = js ''Hello!''\<rparr>,
         \<lparr>role = User, content = js ''Bye''\<rparr>]
   \<and> chat_system_prompt (None :: Chat option) = None
   \<and> allMessages None []
        \<lparr>role = User, content = js ''Bye'', chat_id = ''c1'',
          created_at = ''2024-01-01T00:00:03.000Z''\<rparr>
      = [\<lparr>role = User, content = js ''Bye''\<rparr>]"
  using C6_conversation_builder
      [where chat = "Some \<lparr>chat_ident = ''c1'', user_id = ''u1'', title = ''New Chat'',
             chat_created_at = ''2024-01-01T00:00:00.000Z'',
             system_prompt = Some (js ''You are a helpful assistant.'')\<rparr>"
         and H = "[\<lparr>role = User, content = js ''Hi'', chat_id = ''c1'',
          created_at = ''2024-01-01T00:00:01.000Z'', message_id = ''m1''\<rparr>,
         \<lparr>role = Assistant, content = js ''Hello!'', chat_id = ''c1'',
          created_at = ''2024-01-01T00:00:02.000Z'', message_id = ''m2''\<rparr>]"
         and T = "\<lparr>role = User, content = js ''Bye'', chat_id = ''c1'',
          created_at = ''2024-01-01T00:00:03.000Z''\<rparr>"]
     C6_conversation_builder
      [where chat = None and H = "[]"
         and T = "\<lparr>role = User, content = js ''Bye'', chat_id = ''c1'',
          created_at = ''2024-01-01T00:00:03.000Z''\<rparr>"]
  by (simp add: turn.truncate_def js_def)

section \<open>Completed sessions\<close>

text \<open>
  Claim C2. For every sequence of chunks that ends cleanly, with the client connected, the
  route enqueues the non-empty fragments in order, closes the stream, and inserts one
  assistant message whose content is the concatenation of exactly those fragments, in that
  order; this holds for any number of fragments, zero included, when the insert is accepted.
\<close>

theorem C2_completed_persists_concatenation:
  assumes "\<not> insert_fails w"
  shows "start None cid t \<lparr>chunks = cs, fault = None\<rparr> new_controller w =
           (\<lparr>enqueued = map encode (filter (\<lambda>f. f \<noteq> []) (map chunk_content cs)),
             stream_state = Closed\<rparr>,
            w\<lparr>messages_table := messages_table w @
                [\<lparr>role = Assistant,
                  content = concat (filter (\<lambda>f. f \<noteq> []) (map chunk_content cs)),
                  chat_id = cid, created_at = t\<rparr>]\<rparr>)"
  using assms
  by (simp add: start_def start_with_def for_await_def relay_loop_readable
      concat_filter_nonempty insert_messages_def controller_close_def new_controller_def)

text \<open>Fragments \<open>Hello\<close>, \<open>, \<close>, \<open>world\<close> and a clean end persist \<open>Hello, world\<close>.\<close>

theorem C2_completed_persists_concatenation_witness:
  "\<not> insert_fails \<lparr>chats_table = [], messages_table = [], insert_fails = False, console = []\<rparr>
   \<and> start None ''c1'' ''2024-01-01T00:00:00.000Z''
        \<lparr>chunks = [Chunk [Choice (Some (Delta (Some (js ''Hello''))))],
                   Chunk [Choice (Some (Delta (Some (js '', ''))))],
                   Chunk [Choice (Some (Delta (Some (js ''world''))))]],
         fault = None\<rparr>
        new_controller
        \<lparr>chats_table = [], messages_table = [], insert_fails = False, console = []\<rparr>
     = (\<lparr>enqueued = [encode (js ''Hello''), encode (js '', ''), encode (js ''world'')],
         stream_state = Closed\<rparr>,
        \<lparr>chats_table = [],
         messages_table =
           [\<lparr>role = Assistant, content = js ''Hello, world'', chat_id = ''c1'',
             created_at = ''2024-01-01T00:00:00.000Z''\<rparr>],
         insert_fails = False, console = []\<rparr>)"
  using C2_completed_persists_concatenation
      [where w = "\<lparr>chats_table = [], messages_table = [], insert_fails = False, console = []\<rparr>"
         and cid = "''c1''" and t = "''2024-01-01T00:00:00.000Z''"
         and cs = "[Chunk [Choice (Some (Delta (Some (js ''Hello''))))],
            Chunk [Choice (Some (Delta (Some (js '', ''))))],
            Chunk [Choice (Some (Delta (Some (js ''world''))))]]"]
  by (simp add: chunk_content_def js_def)

section \<open>Interrupted sessions\<close>

text \<open>
  Claim C3, as amended. For every session whose upstream stream throws after some chunks,
  with the client connected, the route with interruption handling has enqueued the
  fragments received before the fault, errors the stream, and, when the accumulated text is
  non-empty, inserts exactly one assistant message whose content is the concatenation of
  the relayed fragments followed by \<open> [Response interrupted]\<close>; when no text was accumulated
  it inserts nothing. The insert is assumed to be accepted.
\<close>

theorem C3_errored_persists_marked_partial:
  assumes "\<not> insert_fails w"
  shows "start_handling_interruptions None cid t \<lparr>chunks = cs, fault = Some err\<rparr> new_controller w =
           (\<lparr>enqueued = map encode (filter (\<lambda>f. f \<noteq> []) (map chunk_content cs)),
             stream_state = Errored (Upstream err)\<rparr>,
            (if concat (filter (\<lambda>f. f \<noteq> []) (map chunk_content cs)) = []
             then console_error ''Stream interrupted:'' w
             else (console_error ''Stream interrupted:'' w)
                    \<lparr>messages_table := messages_table w @
                       [\<lparr>role = Assistant,
                         content = concat (filter (\<lambda>f. f \<noteq> []) (map chunk_content cs))
                                     @ js '' [Response interrupted]'',
                         chat_id = cid, created_at = t\<rparr>]\<rparr>))"
  using assms
  by (simp add: start_handling_interruptions_def start_with_def for_await_def
      relay_loop_readable catch_interrupted_def concat_filter_nonempty insert_messages_def
      controller_error_def new_controller_def console_error_def Let_def)

text \<open>Fragment \<open>Par\<close> and then a transport fault persist \<open>Par [Response interrupted]\<close>.\<close>

theorem C3_errored_persists_marked_partial_witness:
  "\<not> insert_fails \<lparr>chats_table = [], messages_table = [], insert_fails = False, console = []\<rparr>
   \<and> start_handling_interruptions None ''c1'' ''2024-01-01T00:00:00.000Z''
        \<lparr>chunks = [Chunk [Choice (Some (Delta (Some (js ''Par''))))]],
         fault = Some (APIError None ''Connection error.'')\<rparr>
        new_controller
        \<lparr>chats_table = [], messages_table = [], insert_fails = False, console = []\<rparr>
     = (\<lparr>enqueued = [encode (js ''Par'')],
         stream_state = Errored (Upstream (APIError None ''Connection error.''))\<rparr>,
        \<lparr>chats_table = [],
         messages_table =
           [\<lparr>role = Assistant, content = js ''Par [Response interrupted]'', chat_id = ''c1'',
             created_at = ''2024-01-01T00:00:00.000Z''\<rparr>],
         insert_fails = False, console = [''Stream interrupted:'']\<rparr>)"
  using C3_errored_persists_marked_partial
      [where w = "\<lparr>chats_table = [], messages_table = [], insert_fails = False, console = []\<rparr>"
         and cid = "''c1''" and t = "''2024-01-01T00:00:00.000Z''"
         and cs = "[Chunk [Choice (Some (Delta (Some (js ''Par''))))]]"
         and err = "APIError None ''Connection error.''"]
  by (simp add: chunk_content_def console_error_def js_def)

text \<open>
  Claim C3 as stated fails for \<open>k = 0\<close>: a stream that throws before any fragment leaves
  the table empty; no record with the bare marker is written.
\<close>

theorem C3_zero_fragments_counterexample:
  "messages_table (snd (start_handling_interruptions None ''c1'' ''2024-01-01T00:00:00.000Z''
        \<lparr>chunks = [], fault = Some (APIError None ''Connection error.'')\<rparr>
        new_controller
        \<lparr>chats_table = [], messages_table = [], insert_fails = False, console = []\<rparr>))
     \<noteq> [\<lparr>role = Assistant, content = [] @ js '' [Response interrupted]'', chat_id = ''c1'',
          created_at = ''2024-01-01T00:00:00.000Z''\<rparr>]
   \<and> messages_table (snd (start_handling_interruptions None ''c1'' ''2024-01-01T00:00:00.000Z''
        \<lparr>chunks = [], fault = Some (APIError None ''Connection error.'')\<rparr>
        new_controller
        \<lparr>chats_table = [], messages_table = [], insert_fails = False, console = []\<rparr>))
     = []"
  by (simp add: start_handling_interruptions_def start_with_def for_await_def
      catch_interrupted_def console_error_def controller_error_def new_controller_def)

section \<open>Sessions without any fragment\<close>

text \<open>
  Claim C10. When no chunk carries text, a clean end of the stream still inserts one
  assistant message, with the empty string as content, in the route as first given and in
  the route with interruption handling alike; a stream that throws inserts nothing, because
  the handler's guard \<^verbatim>\<open>if (fullResponse)\<close> is false. This holds whether the client stays
  connected or not. The insert is assumed to be accepted.
\<close>

theorem C10_zero_fragment_sessions:
  assumes "concat (map chunk_content cs) = []" and "\<not> insert_fails w"
  shows "messages_table (snd (start client_abort cid t \<lparr>chunks = cs, fault = None\<rparr> ctl w)) =
           messages_table w @
             [\<lparr>role = Assistant, content = [], chat_id = cid, created_at = t\<rparr>]
       \<and> messages_table (snd (start_handling_interruptions client_abort cid t
              \<lparr>chunks = cs, fault = None\<rparr> ctl w)) =
           messages_table w @
             [\<lparr>role = Assistant, content = [], chat_id = cid, created_at = t\<rparr>]
       \<and> messages_table (snd (start_handling_interruptions client_abort cid t
              \<lparr>chunks = cs, fault = Some err\<rparr> ctl w)) =
           messages_table w"
proof -
  obtain r acc k where fa: "for_await client_abort cs ([], ctl) = (r, acc, k)"
    by (cases "for_await client_abort cs ([], ctl)") auto
  then have r: "r = None" and acc: "acc = []"
    using for_await_no_text [OF assms(1), of client_abort "[]" ctl] by simp_all
  show ?thesis
    using fa r acc assms(2)
    by (cases "controller_close k")
      (simp_all add: start_def start_handling_interruptions_def start_with_def
        catch_processing_def catch_interrupted_def insert_messages_def console_error_def Let_def)
qed

text \<open>A stream of a chunk without content and a chunk without choices.\<close>

theorem C10_zero_fragment_sessions_witness:
  "concat (map chunk_content [Chunk [Choice (Some (Delta None))], Chunk []]) = []
   \<and> \<not> insert_fails \<lparr>chats_table = [], messages_table = [], insert_fails = False, console = []\<rparr>
   \<and> messages_table (snd (start None ''c1'' ''2024-01-01T00:00:00.000Z''
         \<lparr>chunks = [Chunk [Choice (Some (Delta None))], Chunk []], fault = None\<rparr>
         new_controller
         \<lparr>chats_table = [], messages_table = [], insert_fails = False, console = []\<rparr>))
       = [\<lparr>role = Assistant, content = [], chat_id = ''c1'',
           created_at = ''2024-01-01T00:00:00.000Z''\<rparr>]
   \<and> messages_table (snd (start_handling_interruptions None ''c1'' ''2024-01-01T00:00:00.000Z''
         \<lparr>chunks = [Chunk [Choice (Some (Delta None))], Chunk []],
          fault = Some (APIError None ''Connection error.'')\<rparr>
         new_controller
         \<lparr>chats_table = [], messages_table = [], insert_fails = False, console = []\<rparr>))
       = []"
  using C10_zero_fragment_sessions
      [where cs = "[Chunk [Choice (Some (Delta None))], Chunk []]"
         and w = "\<lparr>chats_table = [], messages_table = [], insert_fails = False, console = []\<rparr>"
         and cid = "''c1''" and t = "''2024-01-01T00:00:00.000Z''" and ctl = new_controller
         and err = "APIError None ''Connection error.''" and client_abort = None]
  by (simp add: chunk_content_def)

section \<open>Relay order\<close>

text \<open>
  Claim C5. Let the provider send the non-empty fragments \<open>fs\<close>, one per chunk, to a route
  whose client is connected. After any number \<open>n\<close> of chunks nothing has thrown, the
  accumulated text is the concatenation of the first \<open>n\<close> fragments, and \<^verbatim>\<open>enqueue\<close> has
  been called exactly once per fragment, in the order of arrival, each time with the encoding
  of that fragment, which is never empty. One iteration of the loop both appends the
  fragment and enqueues it, so a fragment is handed to the response stream before the next
  chunk is taken. Over a whole session, whether the stream ends cleanly or throws, the bytes
  handed to the response stream are the concatenation of the encoded fragments. Chunks
  without text are skipped. The bytes are the UTF-8 encoding of the accumulated text when no
  fragment ends in a high surrogate; ASCII text is sent as its characters.
\<close>

theorem C5_fragments_relayed_in_order:
  assumes "[] \<notin> set fs"
  shows "relay_loop (map (\<lambda>f. Chunk [Choice (Some (Delta (Some f)))]) (take n fs))
             ([], new_controller)
           = (None, concat (take n fs),
              \<lparr>enqueued = map encode (take n fs), stream_state = Readable\<rparr>)
       \<and> [] \<notin> set (map encode (take n fs))
       \<and> (f \<noteq> [] \<longrightarrow>
            relay_step (Chunk (Choice (Some (Delta (Some f))) # others))
                (acc, \<lparr>enqueued = q, stream_state = Readable\<rparr>)
              = (None, acc @ f, \<lparr>enqueued = q @ [encode f], stream_state = Readable\<rparr>))
       \<and> relay_loop (cs @ [c]) s =
            (case relay_loop cs s of
               (Some e, s') \<Rightarrow> (Some e, s')
             | (None, s') \<Rightarrow> relay_step c s')
       \<and> enqueued (fst (start None cid t
              \<lparr>chunks = map (\<lambda>f. Chunk [Choice (Some (Delta (Some f)))]) fs, fault = fl\<rparr>
              new_controller w))
           = map encode fs
       \<and> relay_loop (take n cs) ([], new_controller)
           = (None, concat (map chunk_content (take n cs)),
              \<lparr>enqueued = map encode (filter (\<lambda>f. f \<noteq> []) (map chunk_content (take n cs))),
                stream_state = Readable\<rparr>)
       \<and> ((\<forall>f \<in> set fs. \<not> is_high (last f)) \<longrightarrow>
            concat (map encode (take n fs)) = encode (concat (take n fs)))
       \<and> ((\<forall>u \<in> set f. unat u < 0x80) \<longrightarrow> encode f = map (\<lambda>u. of_nat (unat u)) f)"
proof -
  let ?ck = "\<lambda>f. Chunk [Choice (Some (Delta (Some f)))]"
  have content_ck: "chunk_content (?ck g) = g" for g
    by (cases g) (simp_all add: chunk_content_def)
  have contents: "map (chunk_content \<circ> ?ck) gs = gs" for gs
    by (induction gs) (simp_all add: content_ck)
  have nonempty: "filter (\<lambda>f. f \<noteq> []) gs = gs" if "[] \<notin> set gs" for gs :: "js_string list"
    using that by (induction gs) auto
  have taken: "[] \<notin> set (take n fs)"
    using assms by (auto dest: in_set_takeD)
  have prefix: "relay_loop (map ?ck (take n fs)) ([], new_controller)
      = (None, concat (take n fs),
         \<lparr>enqueued = map encode (take n fs), stream_state = Readable\<rparr>)"
    by (simp add: relay_loop_readable new_controller_def contents nonempty [OF taken])
  have sent: "[] \<notin> set (map encode (take n fs))"
  proof
    assume "[] \<in> set (map encode (take n fs))"
    then obtain g where g: "g \<in> set (take n fs)" "encode g = []" by auto
    then have "g = []" by (simp add: encode_Nil_iff)
    then show False using g taken by simp
  qed
  have iteration: "f \<noteq> [] \<longrightarrow>
      relay_step (Chunk (Choice (Some (Delta (Some f))) # others))
          (acc, \<lparr>enqueued = q, stream_state = Readable\<rparr>)
        = (None, acc @ f, \<lparr>enqueued = q @ [encode f], stream_state = Readable\<rparr>)"
    by (simp add: relay_step_def chunk_content_def controller_enqueue_def Let_def)
  have next_chunk: "relay_loop (cs @ [c]) s =
      (case relay_loop cs s of
         (Some e, s') \<Rightarrow> (Some e, s')
       | (None, s') \<Rightarrow> relay_step c s')"
    by (rule relay_loop_snoc)
  have loop: "for_await None (map ?ck fs) ([], new_controller)
      = (None, concat fs, \<lparr>enqueued = map encode fs, stream_state = Readable\<rparr>)"
    by (simp add: for_await_def relay_loop_readable new_controller_def contents
        nonempty [OF assms])
  have session: "enqueued (fst (start None cid t \<lparr>chunks = map ?ck fs, fault = fl\<rparr>
      new_controller w)) = map encode fs"
    by (cases fl)
      (simp_all add: start_def start_with_def loop catch_processing_def insert_messages_def
        controller_close_def controller_error_def)
  have chunks: "relay_loop (take n cs) ([], new_controller)
      = (None, concat (map chunk_content (take n cs)),
         \<lparr>enqueued = map encode (filter (\<lambda>f. f \<noteq> []) (map chunk_content (take n cs))),
           stream_state = Readable\<rparr>)"
    by (simp add: relay_loop_readable new_controller_def)
  have bytes: "(\<forall>f \<in> set fs. \<not> is_high (last f)) \<longrightarrow>
      concat (map encode (take n fs)) = encode (concat (take n fs))"
  proof
    assume "\<forall>f \<in> set fs. \<not> is_high (last f)"
    then have "\<forall>f \<in> set (take n fs). f = [] \<or> \<not> is_high (last f)"
      by (auto dest: in_set_takeD)
    then show "concat (map encode (take n fs)) = encode (concat (take n fs))"
      by (simp add: encode_concat)
  qed
  have ascii: "(\<forall>u \<in> set f. unat u < 0x80) \<longrightarrow> encode f = map (\<lambda>u. of_nat (unat u)) f"
    by (simp add: encode_ascii)
  from prefix sent iteration next_chunk session chunks bytes ascii show ?thesis
    by (intro conjI)
qed

text \<open>
  Fragments \<open>Hello\<close>, \<open>U+00E9\<close> and \<open>U+1F600\<close> (a surrogate pair): after two chunks the
  five bytes of \<open>Hello\<close> and the two bytes of \<open>U+00E9\<close> have been enqueued, and the whole
  session enqueues the four bytes of \<open>U+1F600\<close> as well.
\<close>

theorem C5_fragments_relayed_in_order_witness:
  "[] \<notin> set [js ''Hello'', [0xE9], [0xD83D, 0xDE00]]
   \<and> relay_loop
        (map (\<lambda>f. Chunk [Choice (Some (Delta (Some f)))])
           (take 2 [js ''Hello'', [0xE9], [0xD83D, 0xDE00]]))
        ([], new_controller)
     = (None, js ''Hello'' @ [0xE9],
        \<lparr>enqueued = [[0x48, 0x65, 0x6C, 0x6C, 0x6F], [0xC3, 0xA9]], stream_state = Readable\<rparr>)
   \<and> enqueued (fst (start None ''c1'' ''2024-01-01T00:00:00.000Z''
        \<lparr>chunks = map (\<lambda>f. Chunk [Choice (Some (Delta (Some f)))])
                     [js ''Hello'', [0xE9], [0xD83D, 0xDE00]],
         fault = None\<rparr>
        new_controller
        \<lparr>chats_table = [], messages_table = [], insert_fails = False, console = []\<rparr>))
     = [[0x48, 0x65, 0x6C, 0x6C, 0x6F], [0xC3, 0xA9], [0xF0, 0x9F, 0x98, 0x80]]"
  using C5_fragments_relayed_in_order
      [where fs = "[js ''Hello'', [0xE9], [0xD83D, 0xDE00]]" and n = 2
         and cid = "''c1''" and t = "''2024-01-01T00:00:00.000Z''" and fl = None
         and w = "\<lparr>chats_table = [], messages_table = [], insert_fails = False, console = []\<rparr>"]
  by (simp add: js_def encode_def utf8_def is_high_def is_low_def)

section \<open>Cancelled sessions\<close>

text \<open>
  Claim C4, as amended. For every sequence of chunks the client has read when the user
  cancels, the in-progress message holds their concatenation, and the cancel handler, when
  that text is non-empty, inserts exactly one assistant message whose content is the
  concatenation followed by \<open> [Response cancelled]\<close>, the marker once; when the text is
  empty the handler inserts nothing. A second invocation of the handler writes nothing.
  The route is not stopped by the cancellation: whatever the provider still sends and
  whenever the platform cancels the response stream, the session's rows are the handler's
  row, if any, and at most two rows written by the route. The inserts of the handler are
  assumed to be accepted.
\<close>

theorem C4_cancelled_persists_marked_partial:
  assumes "\<not> insert_fails w"
  shows "case read_loop cs (begin_streaming cid stamp t0) of
           None \<Rightarrow> False
         | Some c \<Rightarrow>
             map_option content (streamingMessage c) = Some (concat cs)
           \<and> messages_table (snd (handleCancelResponse cid t c w)) =
               messages_table w @
               (if concat cs = [] then []
                else [\<lparr>role = Assistant, content = concat cs @ js '' [Response cancelled]'',
                       chat_id = cid, created_at = t\<rparr>])
           \<and> (\<forall>t2 w2. snd (handleCancelResponse cid t2 (fst (handleCancelResponse cid t c w)) w2)
                  = w2)
           \<and> (\<exists>rs. messages_table (snd (start_handling_interruptions client_abort cid t' os ctl
                        (snd (handleCancelResponse cid t c w)))) =
                     messages_table w @
                     (if concat cs = [] then []
                      else [\<lparr>role = Assistant, content = concat cs @ js '' [Response cancelled]'',
                             chat_id = cid, created_at = t\<rparr>]) @ rs
                   \<and> length rs \<le> 2)"
proof -
  let ?c = "\<lparr>streamingMessage =
              Some \<lparr>role = Assistant, content = concat cs, chat_id = cid, created_at = t0,
                    message_id = ''streaming-'' @ stamp\<rparr>,
            abortController = Some (), aborted = False\<rparr>"
  let ?row = "if concat cs = [] then []
              else [\<lparr>role = Assistant, content = concat cs @ js '' [Response cancelled]'',
                     chat_id = cid, created_at = t\<rparr>]"
  have rl: "read_loop cs (begin_streaming cid stamp t0) = Some ?c"
    by (simp add: read_loop_eq [where m = "\<lparr>role = Assistant, content = [], chat_id = cid,
          created_at = t0, message_id = ''streaming-'' @ stamp\<rparr>"] begin_streaming_def)
  have shown: "map_option content (streamingMessage ?c) = Some (concat cs)"
    by simp
  have handler: "messages_table (snd (handleCancelResponse cid t ?c w)) = messages_table w @ ?row"
    using assms by (simp add: handleCancelResponse_def insert_messages_def Let_def)
  have once: "\<forall>t2 w2. snd (handleCancelResponse cid t2 (fst (handleCancelResponse cid t ?c w)) w2)
      = w2"
    by (simp add: handleCancelResponse_def insert_messages_def Let_def)
  obtain rs where rs: "messages_table (snd (start_handling_interruptions client_abort cid t' os ctl
        (snd (handleCancelResponse cid t ?c w))))
      = messages_table (snd (handleCancelResponse cid t ?c w)) @ rs" "length rs \<le> 2"
    using start_handling_interruptions_rows
      [of client_abort cid t' os ctl "snd (handleCancelResponse cid t ?c w)"]
    by auto
  have session: "\<exists>rs. messages_table (snd (start_handling_interruptions client_abort cid t' os ctl
        (snd (handleCancelResponse cid t ?c w)))) = messages_table w @ ?row @ rs
      \<and> length rs \<le> 2"
    using rs handler by auto
  from shown handler once session show ?thesis
    unfolding rl by simp
qed

text \<open>Cancelling after \<open>The answer\<close> persists \<open>The answer [Response cancelled]\<close>.\<close>

theorem C4_cancelled_persists_marked_partial_witness:
  "\<not> insert_fails \<lparr>chats_table = [], messages_table = [], insert_fails = False, console = []\<rparr>
   \<and> (case read_loop [js ''The answer'']
             (begin_streaming ''c1'' ''1704067200000'' ''2024-01-01T00:00:00.000Z'') of
         None \<Rightarrow> False
       | Some c \<Rightarrow>
           messages_table (snd (handleCancelResponse ''c1'' ''2024-01-01T00:00:05.000Z'' c
              \<lparr>chats_table = [], messages_table = [], insert_fails = False, console = []\<rparr>))
           = [\<lparr>role = Assistant, content = js ''The answer [Response cancelled]'',
               chat_id = ''c1'', created_at = ''2024-01-01T00:00:05.000Z''\<rparr>])"
  using C4_cancelled_persists_marked_partial
      [where w = "\<lparr>chats_table = [], messages_table = [], insert_fails = False, console = []\<rparr>"
         and cs = "[js ''The answer'']" and cid = "''c1''" and stamp = "''1704067200000''"
         and ?t0.0 = "''2024-01-01T00:00:00.000Z''" and t = "''2024-01-01T00:00:05.000Z''"]
  by (simp add: begin_streaming_def receive_chunk_def js_def split: option.splits)

text \<open>
  Claim C4 as stated fails in two ways. When nothing has been received, the handler's guard
  \<^verbatim>\<open>streamingMessage && streamingMessage.content\<close> skips the insert. And the session does
  not stop at the handler's record: the provider sends \<open>The answer\<close> and then \<open> is 42\<close>, the
  client cancels after the first fragment, the route appends the second one, its
  \<^verbatim>\<open>enqueue\<close> throws on the cancelled stream, and the interruption handler inserts a
  record of its own.
\<close>

theorem C4_cancelled_session_counterexample:
  "messages_table (snd (handleCancelResponse ''c1'' ''2024-01-01T00:00:05.000Z''
        (begin_streaming ''c1'' ''1704067200000'' ''2024-01-01T00:00:00.000Z'')
        \<lparr>chats_table = [], messages_table = [], insert_fails = False, console = []\<rparr>))
     = []
   \<and> (case read_loop [js ''The answer'']
             (begin_streaming ''c1'' ''1704067200000'' ''2024-01-01T00:00:00.000Z'') of
         None \<Rightarrow> False
       | Some c \<Rightarrow>
           messages_table (snd (start_handling_interruptions (Some 1) ''c1''
              ''2024-01-01T00:00:06.000Z''
              \<lparr>chunks = [Chunk [Choice (Some (Delta (Some (js ''The answer''))))],
                         Chunk [Choice (Some (Delta (Some (js '' is 42''))))]],
               fault = None\<rparr>
              new_controller
              (snd (handleCancelResponse ''c1'' ''2024-01-01T00:00:05.000Z'' c
                 \<lparr>chats_table = [], messages_table = [], insert_fails = False,
                   console = []\<rparr>))))
           = [\<lparr>role = Assistant, content = js ''The answer [Response cancelled]'',
               chat_id = ''c1'', created_at = ''2024-01-01T00:00:05.000Z''\<rparr>,
              \<lparr>role = Assistant, content = js ''The answer is 42 [Response interrupted]'',
               chat_id = ''c1'', created_at = ''2024-01-01T00:00:06.000Z''\<rparr>])"
  by (simp add: handleCancelResponse_def begin_streaming_def receive_chunk_def
      start_handling_interruptions_def start_with_def for_await_def relay_step_def
      chunk_content_def controller_enqueue_def stream_cancel_def new_controller_def
      catch_interrupted_def controller_error_def insert_messages_def console_error_def
      js_def Let_def)

section \<open>Records written per session\<close>

text \<open>
  Claim C1, as amended, for the streaming route with the interruption handler and an
  accepting store. A session that completes with the client connected writes exactly one
  record, whatever the number of fragments. A session whose stream throws, with the client
  connected, writes one record when text was accumulated and none otherwise. In a cancelled
  session the cancel handler writes one record when the in-progress message has text and
  none otherwise, and leaves the stored rows as they are; the route, which goes on after the
  cancellation, adds at most two rows to those stored, in every session.
\<close>

theorem C1_records_written_per_session:
  assumes "\<not> insert_fails w"
  shows "length (messages_table (snd (start_handling_interruptions None cid t
              \<lparr>chunks = cs, fault = None\<rparr> new_controller w))) =
           length (messages_table w) + 1
       \<and> length (messages_table (snd (start_handling_interruptions None cid t
              \<lparr>chunks = cs, fault = Some err\<rparr> new_controller w))) =
           length (messages_table w) + (if concat (map chunk_content cs) = [] then 0 else 1)
       \<and> length (messages_table (snd (handleCancelResponse cid t
              \<lparr>streamingMessage = Some m, abortController = Some (), aborted = a\<rparr> w))) =
           length (messages_table w) + (if content m = [] then 0 else 1)
       \<and> take (length (messages_table w)) (messages_table (snd (handleCancelResponse cid t
              \<lparr>streamingMessage = Some m, abortController = Some (), aborted = a\<rparr> w)))
           = messages_table w
       \<and> (\<exists>rs. messages_table (snd (start_handling_interruptions client_abort cid t os ctl w))
                  = messages_table w @ rs
                \<and> length rs \<le> 2)"
proof -
  have completed: "length (messages_table (snd (start_handling_interruptions None cid t
              \<lparr>chunks = cs, fault = None\<rparr> new_controller w))) = length (messages_table w) + 1"
    using assms
    by (simp add: start_handling_interruptions_def start_with_def for_await_def
        relay_loop_readable new_controller_def controller_close_def insert_messages_def)
  have errored: "length (messages_table (snd (start_handling_interruptions None cid t
              \<lparr>chunks = cs, fault = Some err\<rparr> new_controller w))) =
           length (messages_table w) + (if concat (map chunk_content cs) = [] then 0 else 1)"
    using assms
    by (simp add: start_handling_interruptions_def start_with_def for_await_def
        relay_loop_readable new_controller_def catch_interrupted_def insert_messages_def
        console_error_def Let_def)
  have cancelled: "length (messages_table (snd (handleCancelResponse cid t
              \<lparr>streamingMessage = Some m, abortController = Some (), aborted = a\<rparr> w))) =
           length (messages_table w) + (if content m = [] then 0 else 1)"
    using assms
    by (simp add: handleCancelResponse_def insert_messages_def Let_def)
  have kept_client: "take (length (messages_table w)) (messages_table (snd (handleCancelResponse cid t
              \<lparr>streamingMessage = Some m, abortController = Some (), aborted = a\<rparr> w)))
           = messages_table w"
    using assms
    by (simp add: handleCancelResponse_def insert_messages_def Let_def)
  have route: "\<exists>rs. messages_table (snd (start_handling_interruptions client_abort cid t os ctl w))
                  = messages_table w @ rs \<and> length rs \<le> 2"
    by (rule start_handling_interruptions_rows)
  from completed errored cancelled kept_client route show ?thesis
    by (intro conjI)
qed

text \<open>One fragment \<open>Hi\<close>, then a clean end, a fault, or a cancellation: one record each.\<close>

theorem C1_records_written_per_session_witness:
  "\<not> insert_fails \<lparr>chats_table = [], messages_table = [], insert_fails = False, console = []\<rparr>
   \<and> length (messages_table (snd (start_handling_interruptions None ''c1''
         ''2024-01-01T00:00:00.000Z''
         \<lparr>chunks = [Chunk [Choice (Some (Delta (Some (js ''Hi''))))]], fault = None\<rparr>
         new_controller
         \<lparr>chats_table = [], messages_table = [], insert_fails = False, console = []\<rparr>))) = 1
   \<and> length (messages_table (snd (start_handling_interruptions None ''c1''
         ''2024-01-01T00:00:00.000Z''
         \<lparr>chunks = [Chunk [Choice (Some (Delta (Some (js ''Hi''))))]],
          fault = Some (APIError None ''Connection error.'')\<rparr>
         new_controller
         \<lparr>chats_table = [], messages_table = [], insert_fails = False, console = []\<rparr>))) = 1
   \<and> length (messages_table (snd (handleCancelResponse ''c1'' ''2024-01-01T00:00:00.000Z''
         \<lparr>streamingMessage =
            Some \<lparr>role = Assistant, content = js ''Hi'', chat_id = ''c1'',
                  created_at = ''2024-01-01T00:00:00.000Z'',
                  message_id = ''streaming-1704067200000''\<rparr>,
          abortController = Some (), aborted = False\<rparr>
         \<lparr>chats_table = [], messages_table = [], insert_fails = False, console = []\<rparr>))) = 1"
  using C1_records_written_per_session
      [where w = "\<lparr>chats_table = [], messages_table = [], insert_fails = False, console = []\<rparr>"
         and cid = "''c1''" and t = "''2024-01-01T00:00:00.000Z''"
         and cs = "[Chunk [Choice (Some (Delta (Some (js ''Hi''))))]]"
         and err = "APIError None ''Connection error.''"
         and a = False
         and m = "\<lparr>role = Assistant, content = js ''Hi'', chat_id = ''c1'',
                  created_at = ''2024-01-01T00:00:00.000Z'',
                  message_id = ''streaming-1704067200000''\<rparr>"]
  by (simp add: chunk_content_def js_def)

text \<open>
  Claim C1 as stated fails in both directions. A stream that throws before any fragment
  writes no record. And a cancelled session can hold three: the provider sends \<open>Hi\<close> and
  ends, the client cancels once it has read \<open>Hi\<close>, and the platform cancels the response
  stream before the route closes it; the handler inserts its record, the route inserts the
  full response, its \<^verbatim>\<open>close\<close> throws, and the interruption handler inserts a third.
\<close>

theorem C1_session_records_counterexample:
  "length (messages_table (snd (start_handling_interruptions None ''c1''
        ''2024-01-01T00:00:00.000Z''
        \<lparr>chunks = [Chunk [Choice (Some (Delta None))]],
         fault = Some (APIError None ''Connection error.'')\<rparr>
        new_controller
        \<lparr>chats_table = [], messages_table = [], insert_fails = False, console = []\<rparr>))) = 0
   \<and> messages_table (snd (start_handling_interruptions (Some 1) ''c1''
        ''2024-01-01T00:00:06.000Z''
        \<lparr>chunks = [Chunk [Choice (Some (Delta (Some (js ''Hi''))))]], fault = None\<rparr>
        new_controller
        (snd (handleCancelResponse ''c1'' ''2024-01-01T00:00:05.000Z''
           \<lparr>streamingMessage =
              Some \<lparr>role = Assistant, content = js ''Hi'', chat_id = ''c1'',
                    created_at = ''2024-01-01T00:00:00.000Z'',
                    message_id = ''streaming-1704067200000''\<rparr>,
            abortController = Some (), aborted = False\<rparr>
           \<lparr>chats_table = [], messages_table = [], insert_fails = False, console = []\<rparr>))))
     = [\<lparr>role = Assistant, content = js ''Hi [Response cancelled]'', chat_id = ''c1'',
         created_at = ''2024-01-01T00:00:05.000Z''\<rparr>,
        \<lparr>role = Assistant, content = js ''Hi'', chat_id = ''c1'',
         created_at = ''2024-01-01T00:00:06.000Z''\<rparr>,
        \<lparr>role = Assistant, content = js ''Hi [Response interrupted]'', chat_id = ''c1'',
         created_at = ''2024-01-01T00:00:06.000Z''\<rparr>]"
  by (simp add: handleCancelResponse_def
      start_handling_interruptions_def start_with_def for_await_def relay_step_def
      chunk_content_def controller_enqueue_def controller_close_def stream_cancel_def
      new_controller_def catch_interrupted_def controller_error_def insert_messages_def
      console_error_def js_def Let_def)

section \<open>Failures before the first fragment\<close>

text \<open>
  Claim C7, as amended. For every error the provider raises before a stream or a completion
  exists, on an authorised request, both routes insert no record and answer with status 500
  and the body \<open>Internal server error\<close>, after logging the error. The answer does not depend
  on the error: the routes make no difference between a rate limit and a rejected request.
  With the client connected, a stream that throws before any chunk carried text likewise
  leaves no record; it errors the response stream with the error thrown.
\<close>

theorem C7_prestream_failure_generic_error:
  assumes "truthy (sb_access_token e)" and "getUser e = Some uid"
    and "select_chat (chatId rq) uid w = Some ch"
    and "generateStreamingChatCompletion (messages rq) = Inl err"
    and "generateChatCompletion (messages rq) = Inl err"
    and "concat (map chunk_content cs) = []"
  shows "POST_stream generateStreamingChatCompletion client_abort e (Some rq) w =
           (\<lparr>status = 500, body = Json_error ''Internal server error''\<rparr>,
            w\<lparr>console := console w @
                [''Error generating streaming chat completion:'',
                 ''Error in streaming API route:'']\<rparr>)
       \<and> POST generateChatCompletion e (Some rq) w =
           (\<lparr>status = 500, body = Json_error ''Internal server error''\<rparr>,
            w\<lparr>console := console w @
                [''Error generating chat completion:'', ''Error in chat API route:'']\<rparr>)
       \<and> messages_table (snd (POST_stream generateStreamingChatCompletion client_abort e (Some rq) w))
           = messages_table w
       \<and> messages_table (snd (POST generateChatCompletion e (Some rq) w)) = messages_table w
       \<and> start None cid t \<lparr>chunks = cs, fault = Some err\<rparr> new_controller w =
           (\<lparr>enqueued = [], stream_state = Errored (Upstream err)\<rparr>,
            w\<lparr>console := console w @ [''Error processing stream:'']\<rparr>)
       \<and> start_handling_interruptions None cid t \<lparr>chunks = cs, fault = Some err\<rparr> new_controller w =
           (\<lparr>enqueued = [], stream_state = Errored (Upstream err)\<rparr>,
            w\<lparr>console := console w @ [''Stream interrupted:'']\<rparr>)"
proof -
  have no_fragment: "filter (\<lambda>f. f \<noteq> []) (map chunk_content cs) = []"
    using assms(6) by (induction cs) simp_all
  have routes: "POST_stream generateStreamingChatCompletion client_abort e (Some rq) w =
           (\<lparr>status = 500, body = Json_error ''Internal server error''\<rparr>,
            w\<lparr>console := console w @
                [''Error generating streaming chat completion:'',
                 ''Error in streaming API route:'']\<rparr>)
       \<and> POST generateChatCompletion e (Some rq) w =
           (\<lparr>status = 500, body = Json_error ''Internal server error''\<rparr>,
            w\<lparr>console := console w @
                [''Error generating chat completion:'', ''Error in chat API route:'']\<rparr>)"
    using assms(1-5) by (simp add: POST_stream_def POST_def console_error_def)
  have in_stream: "start None cid t \<lparr>chunks = cs, fault = Some err\<rparr> new_controller w =
           (\<lparr>enqueued = [], stream_state = Errored (Upstream err)\<rparr>,
            w\<lparr>console := console w @ [''Error processing stream:'']\<rparr>)
       \<and> start_handling_interruptions None cid t \<lparr>chunks = cs, fault = Some err\<rparr> new_controller w =
           (\<lparr>enqueued = [], stream_state = Errored (Upstream err)\<rparr>,
            w\<lparr>console := console w @ [''Stream interrupted:'']\<rparr>)"
    using assms(6) no_fragment
    by (simp add: start_def start_handling_interruptions_def start_with_def for_await_def
        relay_loop_readable catch_processing_def catch_interrupted_def console_error_def
        controller_error_def new_controller_def Let_def)
  from routes in_stream show ?thesis by simp
qed

text \<open>A rate-limit error (status 429) on the streaming route.\<close>

theorem C7_prestream_failure_generic_error_witness:
  "truthy (sb_access_token \<lparr>sb_access_token = Some ''token'', getUser = Some ''u1'',
                            now = ''2024-01-01T00:00:00.000Z''\<rparr>)
   \<and> select_chat ''c1'' ''u1''
        \<lparr>chats_table = [\<lparr>chat_ident = ''c1'', user_id = ''u1'', title = ''New Chat'',
                          chat_created_at = ''2024-01-01T00:00:00.000Z'',
                          system_prompt = None\<rparr>],
          messages_table = [], insert_fails = False, console = []\<rparr>
     = Some \<lparr>chat_ident = ''c1'', user_id = ''u1'', title = ''New Chat'',
                          chat_created_at = ''2024-01-01T00:00:00.000Z'',
                          system_prompt = None\<rparr>
   \<and> concat (map chunk_content []) = []
   \<and> POST_stream (\<lambda>ms. Inl (APIError (Some 429) ''Rate limit reached'')) None
        \<lparr>sb_access_token = Some ''token'', getUser = Some ''u1'',
          now = ''2024-01-01T00:00:00.000Z''\<rparr>
        (Some \<lparr>messages = [\<lparr>role = User, content = js ''Hi''\<rparr>], chatId = ''c1''\<rparr>)
        \<lparr>chats_table = [\<lparr>chat_ident = ''c1'', user_id = ''u1'', title = ''New Chat'',
                          chat_created_at = ''2024-01-01T00:00:00.000Z'',
                          system_prompt = None\<rparr>],
          messages_table = [], insert_fails = False, console = []\<rparr>
     = (\<lparr>status = 500, body = Json_error ''Internal server error''\<rparr>,
        \<lparr>chats_table = [\<lparr>chat_ident = ''c1'', user_id = ''u1'', title = ''New Chat'',
                          chat_created_at = ''2024-01-01T00:00:00.000Z'',
                          system_prompt = None\<rparr>],
          messages_table = [], insert_fails = False,
          console = [''Error generating streaming chat completion:'',
                     ''Error in streaming API route:'']\<rparr>)"
  using C7_prestream_failure_generic_error
      [where e = "\<lparr>sb_access_token = Some ''token'', getUser = Some ''u1'',
                     now = ''2024-01-01T00:00:00.000Z''\<rparr>"
         and uid = "''u1''"
         and rq = "\<lparr>messages = [\<lparr>role = User, content = js ''Hi''\<rparr>], chatId = ''c1''\<rparr>"
         and w = "\<lparr>chats_table = [\<lparr>chat_ident = ''c1'', user_id = ''u1'', title = ''New Chat'',
                          chat_created_at = ''2024-01-01T00:00:00.000Z'',
                          system_prompt = None\<rparr>],
          messages_table = [], insert_fails = False, console = []\<rparr>"
         and ch = "\<lparr>chat_ident = ''c1'', user_id = ''u1'', title = ''New Chat'',
                          chat_created_at = ''2024-01-01T00:00:00.000Z'',
                          system_prompt = None\<rparr>"
         and generateStreamingChatCompletion = "\<lambda>ms. Inl (APIError (Some 429) ''Rate limit reached'')"
         and generateChatCompletion = "\<lambda>ms. Inl (APIError (Some 429) ''Rate limit reached'')"
         and err = "APIError (Some 429) ''Rate limit reached''"
         and cs = "[]"]
  by (simp add: select_chat_def)

text \<open>
  Claim C7 as stated fails in its second half: a rate-limit error and a context-length
  rejection get the same response from either route.
\<close>

theorem C7_same_error_counterexample:
  "fst (POST_stream (\<lambda>ms. Inl (APIError (Some 429) ''Rate limit reached'')) None
        \<lparr>sb_access_token = Some ''token'', getUser = Some ''u1'',
          now = ''2024-01-01T00:00:00.000Z''\<rparr>
        (Some \<lparr>messages = [\<lparr>role = User, content = js ''Hi''\<rparr>], chatId = ''c1''\<rparr>)
        \<lparr>chats_table = [\<lparr>chat_ident = ''c1'', user_id = ''u1'', title = ''New Chat'',
                          chat_created_at = ''2024-01-01T00:00:00.000Z'',
                          system_prompt = None\<rparr>],
          messages_table = [], insert_fails = False, console = []\<rparr>)
   = fst (POST_stream (\<lambda>ms. Inl (APIError (Some 400) ''maximum context length exceeded'')) None
        \<lparr>sb_access_token = Some ''token'', getUser = Some ''u1'',
          now = ''2024-01-01T00:00:00.000Z''\<rparr>
        (Some \<lparr>messages = [\<lparr>role = User, content = js ''Hi''\<rparr>], chatId = ''c1''\<rparr>)
        \<lparr>chats_table = [\<lparr>chat_ident = ''c1'', user_id = ''u1'', title = ''New Chat'',
                          chat_created_at = ''2024-01-01T00:00:00.000Z'',
                          system_prompt = None\<rparr>],
          messages_table = [], insert_fails = False, console = []\<rparr>)
   \<and> fst (POST (\<lambda>ms. Inl (APIError (Some 429) ''Rate limit reached''))
        \<lparr>sb_access_token = Some ''token'', getUser = Some ''u1'',
          now = ''2024-01-01T00:00:00.000Z''\<rparr>
        (Some \<lparr>messages = [\<lparr>role = User, content = js ''Hi''\<rparr>], chatId = ''c1''\<rparr>)
        \<lparr>chats_table = [\<lparr>chat_ident = ''c1'', user_id = ''u1'', title = ''New Chat'',
                          chat_created_at = ''2024-01-01T00:00:00.000Z'',
                          system_prompt = None\<rparr>],
          messages_table = [], insert_fails = False, console = []\<rparr>)
   = fst (POST (\<lambda>ms. Inl (APIError (Some 400) ''maximum context length exceeded''))
        \<lparr>sb_access_token = Some ''token'', getUser = Some ''u1'',
          now = ''2024-01-01T00:00:00.000Z''\<rparr>
        (Some \<lparr>messages = [\<lparr>role = User, content = js ''Hi''\<rparr>], chatId = ''c1''\<rparr>)
        \<lparr>chats_table = [\<lparr>chat_ident = ''c1'', user_id = ''u1'', title = ''New Chat'',
                          chat_created_at = ''2024-01-01T00:00:00.000Z'',
                          system_prompt = None\<rparr>],
          messages_table = [], insert_fails = False, console = []\<rparr>)"
  by (simp add: POST_stream_def POST_def select_chat_def console_error_def)

section \<open>A failing final write\<close>

text \<open>
  Claim C8, on a session of one fragment \<open>Hi\<close> that ends cleanly, with the client
  connected, while the store rejects the insert. The streaming route answers 200, relays the
  fragment and closes the stream as on success; it logs nothing and no record exists. On the
  same store the non-streaming route logs the failure and answers 500 with
  \<open>Failed to save AI response\<close>.
\<close>

theorem C8_streaming_insert_failure_not_surfaced:
  "POST_stream
      (\<lambda>ms. Inr \<lparr>chunks = [Chunk [Choice (Some (Delta (Some (js ''Hi''))))]], fault = None\<rparr>)
      None
      \<lparr>sb_access_token = Some ''token'', getUser = Some ''u1'',
        now = ''2024-01-01T00:00:00.000Z''\<rparr>
      (Some \<lparr>messages = [\<lparr>role = User, content = js ''Hi''\<rparr>], chatId = ''c1''\<rparr>)
      \<lparr>chats_table = [\<lparr>chat_ident = ''c1'', user_id = ''u1'', title = ''New Chat'',
                        chat_created_at = ''2024-01-01T00:00:00.000Z'',
                        system_prompt = None\<rparr>],
        messages_table = [], insert_fails = True, console = []\<rparr>
   = (\<lparr>status = 200,
       body = Stream \<lparr>enqueued = [encode (js ''Hi'')], stream_state = Closed\<rparr>\<rparr>,
      \<lparr>chats_table = [\<lparr>chat_ident = ''c1'', user_id = ''u1'', title = ''New Chat'',
                        chat_created_at = ''2024-01-01T00:00:00.000Z'',
                        system_prompt = None\<rparr>],
        messages_table = [], insert_fails = True, console = []\<rparr>)
   \<and> POST (\<lambda>ms. Inr (Some (js ''Hi'')))
      \<lparr>sb_access_token = Some ''token'', getUser = Some ''u1'',
        now = ''2024-01-01T00:00:00.000Z''\<rparr>
      (Some \<lparr>messages = [\<lparr>role = User, content = js ''Hi''\<rparr>], chatId = ''c1''\<rparr>)
      \<lparr>chats_table = [\<lparr>chat_ident = ''c1'', user_id = ''u1'', title = ''New Chat'',
                        chat_created_at = ''2024-01-01T00:00:00.000Z'',
                        system_prompt = None\<rparr>],
        messages_table = [], insert_fails = True, console = []\<rparr>
   = (\<lparr>status = 500, body = Json_error ''Failed to save AI response''\<rparr>,
      \<lparr>chats_table = [\<lparr>chat_ident = ''c1'', user_id = ''u1'', title = ''New Chat'',
                        chat_created_at = ''2024-01-01T00:00:00.000Z'',
                        system_prompt = None\<rparr>],
        messages_table = [], insert_fails = True,
        console = [''Error inserting AI response:'']\<rparr>)"
  by (simp add: POST_stream_def POST_def select_chat_def start_def start_with_def
      for_await_def relay_step_def chunk_content_def controller_enqueue_def
      controller_close_def new_controller_def catch_processing_def insert_messages_def
      console_error_def js_def Let_def)

section \<open>Empty completions on the non-streaming route\<close>

text \<open>
  Claim C9. On an authorised request, when the provider returns null or the empty string and
  the insert is accepted, the non-streaming route stores one assistant message whose content
  is the fixed fallback sentence and answers with success. Moreover, for every request,
  provider result and store, the route adds at most one row and never one with empty
  content.
\<close>

theorem C9_fallback_for_empty_completion:
  assumes "truthy (sb_access_token e)" and "getUser e = Some uid"
    and "select_chat (chatId rq) uid w = Some ch"
    and "generateChatCompletion (messages rq) = Inr aiResponse"
    and "aiResponse = None \<or> aiResponse = Some []"
    and "\<not> insert_fails w"
  shows "POST generateChatCompletion e (Some rq) w =
           (\<lparr>status = 200, body = Json_success True\<rparr>,
            w\<lparr>messages_table := messages_table w @
                [\<lparr>role = Assistant,
                  content = js ''I apologize, but I was unable to generate a response.'',
                  chat_id = chatId rq, created_at = now e\<rparr>]\<rparr>)
       \<and> (\<exists>rs. messages_table (snd (POST gen' e' request' w')) = messages_table w' @ rs
              \<and> length rs \<le> 1
              \<and> list_all (\<lambda>r. content r \<noteq> []) rs)"
proof -
  have fallback: "POST generateChatCompletion e (Some rq) w =
           (\<lparr>status = 200, body = Json_success True\<rparr>,
            w\<lparr>messages_table := messages_table w @
                [\<lparr>role = Assistant,
                  content = js ''I apologize, but I was unable to generate a response.'',
                  chat_id = chatId rq, created_at = now e\<rparr>]\<rparr>)"
    using assms by (auto simp: POST_def insert_messages_def)
  have nonempty: "or_else a (js ''I apologize, but I was unable to generate a response.'') \<noteq> []"
    for a
    by (cases a) (simp_all add: js_def)
  have never_empty: "\<exists>rs. messages_table (snd (POST gen' e' request' w')) = messages_table w' @ rs
              \<and> length rs \<le> 1 \<and> list_all (\<lambda>r. content r \<noteq> []) rs"
    using nonempty
    by (auto simp: POST_def insert_messages_def console_error_def
        split: option.splits sum.splits)
  from fallback never_empty show ?thesis by (intro conjI)
qed

text \<open>An empty completion on an authorised request.\<close>

theorem C9_fallback_for_empty_completion_witness:
  "truthy (sb_access_token \<lparr>sb_access_token = Some ''token'', getUser = Some ''u1'',
                            now = ''2024-01-01T00:00:00.000Z''\<rparr>)
   \<and> select_chat ''c1'' ''u1''
        \<lparr>chats_table = [\<lparr>chat_ident = ''c1'', user_id = ''u1'', title = ''New Chat'',
                          chat_created_at = ''2024-01-01T00:00:00.000Z'',
                          system_prompt = None\<rparr>],
          messages_table = [], insert_fails = False, console = []\<rparr>
     = Some \<lparr>chat_ident = ''c1'', user_id = ''u1'', title = ''New Chat'',
                          chat_created_at = ''2024-01-01T00:00:00.000Z'',
                          system_prompt = None\<rparr>
   \<and> \<not> insert_fails \<lparr>chats_table = [\<lparr>chat_ident = ''c1'', user_id = ''u1'', title = ''New Chat'',
                          chat_created_at = ''2024-01-01T00:00:00.000Z'',
                          system_prompt = None\<rparr>],
          messages_table = [], insert_fails = False, console = []\<rparr>
   \<and> POST (\<lambda>ms. Inr (Some []))
        \<lparr>sb_access_token = Some ''token'', getUser = Some ''u1'',
          now = ''2024-01-01T00:00:00.000Z''\<rparr>
        (Some \<lparr>messages = [\<lparr>role = User, content = js ''Hi''\<rparr>], chatId = ''c1''\<rparr>)
        \<lparr>chats_table = [\<lparr>chat_ident = ''c1'', user_id = ''u1'', title = ''New Chat'',
                          chat_created_at = ''2024-01-01T00:00:00.000Z'',
                          system_prompt = None\<rparr>],
          messages_table = [], insert_fails = False, console = []\<rparr>
     = (\<lparr>status = 200, body = Json_success True\<rparr>,
        \<lparr>chats_table = [\<lparr>chat_ident = ''c1'', user_id = ''u1'', title = ''New Chat'',
                          chat_created_at = ''2024-01-01T00:00:00.000Z'',
                          system_prompt = None\<rparr>],
          messages_table =
            [\<lparr>role = Assistant,
              content = js ''I apologize, but I was unable to generate a response.'',
              chat_id = ''c1'', created_at = ''2024-01-01T00:00:00.000Z''\<rparr>],
          insert_fails = False, console = []\<rparr>)"
  using C9_fallback_for_empty_completion
      [where e = "\<lparr>sb_access_token = Some ''token'', getUser = Some ''u1'',
                     now = ''2024-01-01T00:00:00.000Z''\<rparr>"
         and uid = "''u1''"
         and rq = "\<lparr>messages = [\<lparr>role = User, content = js ''Hi''\<rparr>], chatId = ''c1''\<rparr>"
         and w = "\<lparr>chats_table = [\<lparr>chat_ident = ''c1'', user_id = ''u1'', title = ''New Chat'',
                          chat_created_at = ''2024-01-01T00:00:00.000Z'',
                          system_prompt = None\<rparr>],
          messages_table = [], insert_fails = False, console = []\<rparr>"
         and ch = "\<lparr>chat_ident = ''c1'', user_id = ''u1'', title = ''New Chat'',
                          chat_created_at = ''2024-01-01T00:00:00.000Z'',
                          system_prompt = None\<rparr>"
         and generateChatCompletion = "\<lambda>ms. Inr (Some [])"
         and aiResponse = "Some []"]
  by (simp add: select_chat_def)

end
